theory Spec2Isabelle
  imports Complex_Main
begin

section \<open>GLSL values\<close>

text \<open>
  The shaders of \<^verbatim>\<open>src/App.js\<close> compute on GLSL \<^verbatim>\<open>float\<close>, \<^verbatim>\<open>vec2\<close>, \<^verbatim>\<open>vec3\<close>,
  \<^verbatim>\<open>vec4\<close> and \<^verbatim>\<open>mat4\<close>. A \<^verbatim>\<open>float\<close> is modelled as a \<^typ>\<open>real\<close>: every operator of the
  shader is the operator of the same name on reals, applied in the order the source
  writes it; rounding of the GPU's \<^verbatim>\<open>mediump\<close> arithmetic is not modelled. A \<^verbatim>\<open>mat4\<close> is
  its four columns, as in GLSL.
\<close>

datatype vec2 = vec2 (v2x: real) (v2y: real)

datatype vec3 = vec3 (v3x: real) (v3y: real) (v3z: real)

datatype vec4 = vec4 (v4x: real) (v4y: real) (v4z: real) (v4w: real)

datatype mat4 = mat4 (col0: vec4) (col1: vec4) (col2: vec4) (col3: vec4)

text \<open>\<^verbatim>\<open>vec2 + float\<close>: the scalar is added to each component.\<close>

definition vec2_add_float :: "vec2 \<Rightarrow> real \<Rightarrow> vec2" where
  "vec2_add_float v s = vec2 (v2x v + s) (v2y v + s)"

text \<open>The constructor \<^verbatim>\<open>vec4(vec3, float)\<close> and the swizzle \<^verbatim>\<open>.rgb\<close>.\<close>

definition vec4_of :: "vec3 \<Rightarrow> real \<Rightarrow> vec4" where
  "vec4_of v w = vec4 (v3x v) (v3y v) (v3z v) w"

definition rgb :: "vec4 \<Rightarrow> vec3" where
  "rgb c = vec3 (v4x c) (v4y c) (v4z c)"

definition vec4_add :: "vec4 \<Rightarrow> vec4 \<Rightarrow> vec4" where
  "vec4_add a b = vec4 (v4x a + v4x b) (v4y a + v4y b) (v4z a + v4z b) (v4w a + v4w b)"

definition vec4_scale :: "vec4 \<Rightarrow> real \<Rightarrow> vec4" where
  "vec4_scale a s = vec4 (v4x a * s) (v4y a * s) (v4z a * s) (v4w a * s)"

text \<open>\<^verbatim>\<open>mat4 * vec4\<close> and \<^verbatim>\<open>mat4 * mat4\<close> (column-major).\<close>

definition mat4_mul_vec4 :: "mat4 \<Rightarrow> vec4 \<Rightarrow> vec4" where
  "mat4_mul_vec4 m v =
     vec4_add (vec4_add (vec4_scale (col0 m) (v4x v)) (vec4_scale (col1 m) (v4y v)))
              (vec4_add (vec4_scale (col2 m) (v4z v)) (vec4_scale (col3 m) (v4w v)))"

definition mat4_mul :: "mat4 \<Rightarrow> mat4 \<Rightarrow> mat4" where
  "mat4_mul a b =
     mat4 (mat4_mul_vec4 a (col0 b)) (mat4_mul_vec4 a (col1 b))
          (mat4_mul_vec4 a (col2 b)) (mat4_mul_vec4 a (col3 b))"

text \<open>
  A \<^verbatim>\<open>sampler2D\<close> is what \<^verbatim>\<open>texture2D\<close> reads from it: a colour for every coordinate
  (filtering and wrapping are the texture's own).
\<close>

type_synonym sampler2D = "vec2 \<Rightarrow> vec4"

definition texture2D :: "sampler2D \<Rightarrow> vec2 \<Rightarrow> vec4" where
  "texture2D s coord = s coord"

section \<open>The noise function bound on line 32\<close>

text \<open>
  Line 32, \<^verbatim>\<open>#pragma glslify: snoise3 = require(glsl-noise/simplex/3d)\<close>, pastes the
  function \<^verbatim>\<open>snoise\<close> of the package \<^verbatim>\<open>glsl-noise\<close> (file \<^verbatim>\<open>simplex/3d.glsl\<close>, by Ian McEwan,
  Ashima Arts) into the vertex shader under the name \<^verbatim>\<open>snoise3\<close>. The package is a
  dependency of the repository, not one of its files; what follows transcribes that
  function statement by statement. The shader stages below take the noise function as a
  parameter, so that nothing proved about them rests on this transcription; it is used
  only where a value of the noise itself is needed. The locals \<^verbatim>\<open>n_\<close>, \<^verbatim>\<open>x_\<close> and \<^verbatim>\<open>y_\<close> of
  the GLSL are \<open>n_s\<close>, \<open>x_s\<close> and \<open>y_s\<close> here; the components of the constants \<^verbatim>\<open>C\<close> and
  \<^verbatim>\<open>D\<close> are bound one by one.

  The GLSL writes \<^verbatim>\<open>float n_ = 0.142857142857; // 1.0/7.0\<close>. A single-precision float
  stores that literal as \<open>9586981 / 2^26 = 0.14285714924...\<close>, just above \<open>1/7\<close>, where the
  decimal itself is just below. The difference decides \<^verbatim>\<open>floor(j * ns.z)\<close> whenever \<^verbatim>\<open>j\<close> is
  a multiple of 7 (and \<^verbatim>\<open>floor(p * ns.z * ns.z)\<close> at multiples of 49), so \<open>n_s\<close> is the
  stored float. Every other operation is the exact one on reals: the result differs from
  a single-precision evaluation by rounding only, except where rounding decides a
  comparison or a \<^verbatim>\<open>floor\<close>.
\<close>

definition map3 :: "(real \<Rightarrow> real) \<Rightarrow> vec3 \<Rightarrow> vec3" where
  "map3 f a = vec3 (f (v3x a)) (f (v3y a)) (f (v3z a))"

definition zip3 :: "(real \<Rightarrow> real \<Rightarrow> real) \<Rightarrow> vec3 \<Rightarrow> vec3 \<Rightarrow> vec3" where
  "zip3 f a b = vec3 (f (v3x a) (v3x b)) (f (v3y a) (v3y b)) (f (v3z a) (v3z b))"

definition map4 :: "(real \<Rightarrow> real) \<Rightarrow> vec4 \<Rightarrow> vec4" where
  "map4 f a = vec4 (f (v4x a)) (f (v4y a)) (f (v4z a)) (f (v4w a))"

definition zip4 :: "(real \<Rightarrow> real \<Rightarrow> real) \<Rightarrow> vec4 \<Rightarrow> vec4 \<Rightarrow> vec4" where
  "zip4 f a b =
     vec4 (f (v4x a) (v4x b)) (f (v4y a) (v4y b)) (f (v4z a) (v4z b)) (f (v4w a) (v4w b))"

definition dot3 :: "vec3 \<Rightarrow> vec3 \<Rightarrow> real" where
  "dot3 a b = v3x a * v3x b + v3y a * v3y b + v3z a * v3z b"

definition dot4 :: "vec4 \<Rightarrow> vec4 \<Rightarrow> real" where
  "dot4 a b = v4x a * v4x b + v4y a * v4y b + v4z a * v4z b + v4w a * v4w b"

text \<open>The GLSL built-ins \<^verbatim>\<open>floor\<close> and \<^verbatim>\<open>step(edge, x)\<close>.\<close>

definition glsl_floor :: "real \<Rightarrow> real" where
  "glsl_floor x = of_int \<lfloor>x\<rfloor>"

definition step :: "real \<Rightarrow> real \<Rightarrow> real" where
  "step edge x = (if x < edge then 0 else 1)"

definition mod289 :: "real \<Rightarrow> real" where
  "mod289 x = x - glsl_floor (x * (1 / 289)) * 289"

definition permute :: "vec4 \<Rightarrow> vec4" where
  "permute v = map4 (\<lambda>x. mod289 ((x * 34 + 1) * x)) v"

definition taylorInvSqrt :: "real \<Rightarrow> real" where
  "taylorInvSqrt r = 1.79284291400159 - 0.85373472095314 * r"

definition snoise :: "vec3 \<Rightarrow> real" where
  "snoise v =
     (let Cx = 1 / 6; Cy = 1 / 3;
          Dx = 0; Dy = 0.5; Dz = 1; Dw = 2;
          i = map3 glsl_floor (map3 (\<lambda>c. c + dot3 v (vec3 Cy Cy Cy)) v);
          x0 = map3 (\<lambda>c. c + dot3 i (vec3 Cx Cx Cx)) (zip3 (-) v i);
          g = zip3 step (vec3 (v3y x0) (v3z x0) (v3x x0)) x0;
          l = map3 (\<lambda>c. 1 - c) g;
          i1 = zip3 min g (vec3 (v3z l) (v3x l) (v3y l));
          i2 = zip3 max g (vec3 (v3z l) (v3x l) (v3y l));
          x1 = map3 (\<lambda>c. c + Cx) (zip3 (-) x0 i1);
          x2 = map3 (\<lambda>c. c + Cy) (zip3 (-) x0 i2);
          x3 = map3 (\<lambda>c. c - Dy) x0;
          i = map3 mod289 i;
          p = permute (zip4 (+)
                (map4 (\<lambda>c. c + v3x i)
                  (permute (zip4 (+)
                    (map4 (\<lambda>c. c + v3y i)
                      (permute (map4 (\<lambda>c. v3z i + c) (vec4 0 (v3z i1) (v3z i2) 1))))
                    (vec4 0 (v3y i1) (v3y i2) 1))))
                (vec4 0 (v3x i1) (v3x i2) 1));
          n_s = 9586981 / 2 ^ 26;
          ns = vec3 (n_s * Dw - Dx) (n_s * Dy - Dz) (n_s * Dz - Dx);
          j = map4 (\<lambda>c. c - 49 * glsl_floor (c * v3z ns * v3z ns)) p;
          x_s = map4 (\<lambda>c. glsl_floor (c * v3z ns)) j;
          y_s = zip4 (\<lambda>jc xc. glsl_floor (jc - 7 * xc)) j x_s;
          x = map4 (\<lambda>c. c * v3x ns + v3y ns) x_s;
          y = map4 (\<lambda>c. c * v3x ns + v3y ns) y_s;
          h = zip4 (\<lambda>xc yc. 1 - \<bar>xc\<bar> - \<bar>yc\<bar>) x y;
          b0 = vec4 (v4x x) (v4y x) (v4x y) (v4y y);
          b1 = vec4 (v4z x) (v4w x) (v4z y) (v4w y);
          s0 = map4 (\<lambda>c. glsl_floor c * 2 + 1) b0;
          s1 = map4 (\<lambda>c. glsl_floor c * 2 + 1) b1;
          sh = map4 (\<lambda>c. - step c 0) h;
          a0 = vec4 (v4x b0 + v4x s0 * v4x sh) (v4z b0 + v4z s0 * v4x sh)
                    (v4y b0 + v4y s0 * v4y sh) (v4w b0 + v4w s0 * v4y sh);
          a1 = vec4 (v4x b1 + v4x s1 * v4z sh) (v4z b1 + v4z s1 * v4z sh)
                    (v4y b1 + v4y s1 * v4w sh) (v4w b1 + v4w s1 * v4w sh);
          p0 = vec3 (v4x a0) (v4y a0) (v4x h);
          p1 = vec3 (v4z a0) (v4w a0) (v4y h);
          p2 = vec3 (v4x a1) (v4y a1) (v4z h);
          p3 = vec3 (v4z a1) (v4w a1) (v4w h);
          norm = map4 taylorInvSqrt (vec4 (dot3 p0 p0) (dot3 p1 p1) (dot3 p2 p2) (dot3 p3 p3));
          p0 = map3 (\<lambda>c. c * v4x norm) p0;
          p1 = map3 (\<lambda>c. c * v4y norm) p1;
          p2 = map3 (\<lambda>c. c * v4z norm) p2;
          p3 = map3 (\<lambda>c. c * v4w norm) p3;
          m = map4 (\<lambda>c. max (0.6 - c) 0)
                (vec4 (dot3 x0 x0) (dot3 x1 x1) (dot3 x2 x2) (dot3 x3 x3));
          m = zip4 (*) m m
      in 42 * dot4 (zip4 (*) m m) (vec4 (dot3 p0 x0) (dot3 p1 x1) (dot3 p2 x2) (dot3 p3 x3)))"

section \<open>The shader material (App.js, lines 12-68)\<close>

text \<open>
  The uniforms object of \<^verbatim>\<open>shaderMaterial\<close> (lines 16-20). \<^verbatim>\<open>uColor\<close> is a
  \<^verbatim>\<open>THREE.Color\<close>, built from three components or set from a CSS colour name.
\<close>

datatype color = Color real real real | ColorName string

record wave_uniforms =
  uTime :: real
  uColor :: color
  uTexture :: sampler2D

text \<open>The uniforms three.js binds for every material, read on line 44.\<close>

record builtin_uniforms =
  projectionMatrix :: mat4
  modelViewMatrix :: mat4

text \<open>The attributes of one vertex, and what the vertex stage writes.\<close>

record vertex_attributes =
  position :: vec3
  uv :: vec2

record vertex_output =
  gl_Position :: vec4
  vUv :: vec2
  vWave :: real

text \<open>
  Lines 37-42: the local \<^verbatim>\<open>pos\<close> after the displacement. \<^verbatim>\<open>snoise3\<close> is the function the
  \<^verbatim>\<open>glslify\<close> pragma of line 32 binds; it is a parameter here.
\<close>

definition displaced_pos :: "(vec3 \<Rightarrow> real) \<Rightarrow> real \<Rightarrow> vec3 \<Rightarrow> vec3" where
  "displaced_pos snoise3 t p =
     (let pos = p;
          noiseFreq = 2.5;
          noiseAmp = 0.7;
          noisePos = vec3 (v3x pos * noiseFreq + t) (v3y pos) (v3z pos)
      in vec3 (v3x pos) (v3y pos) (v3z pos + snoise3 noisePos * noiseAmp))"

text \<open>The vertex shader's \<^verbatim>\<open>main\<close> (lines 34-46).\<close>

definition vertex_main ::
  "(vec3 \<Rightarrow> real) \<Rightarrow> builtin_uniforms \<Rightarrow> wave_uniforms \<Rightarrow> vertex_attributes \<Rightarrow> vertex_output" where
  "vertex_main snoise3 B U a =
     (let pos = displaced_pos snoise3 (uTime U) (position a)
      in \<lparr> gl_Position =
             mat4_mul_vec4 (mat4_mul (projectionMatrix B) (modelViewMatrix B)) (vec4_of pos 1.0),
           vUv = uv a,
           vWave = v3z pos \<rparr>)"

text \<open>
  The fragment shader's \<^verbatim>\<open>main\<close> (lines 60-66); its result is \<^verbatim>\<open>gl_FragColor\<close>. The
  uniforms \<^verbatim>\<open>uColor\<close> and \<^verbatim>\<open>uTime\<close> are declared (lines 53-54) and not read.
\<close>

definition fragment_main :: "wave_uniforms \<Rightarrow> vec2 \<Rightarrow> real \<Rightarrow> vec4" where
  "fragment_main U vUv_in vWave_in =
     (let wave = vWave_in * 0.1;
          texture = rgb (texture2D (uTexture U) (vec2_add_float vUv_in wave))
      in vec4_of texture 1.0)"

text \<open>
  The colour of the fragment that lies on a vertex: there the interpolated varyings are
  the ones the vertex stage wrote for that vertex.
\<close>

definition fragment_at_vertex ::
  "(vec3 \<Rightarrow> real) \<Rightarrow> builtin_uniforms \<Rightarrow> wave_uniforms \<Rightarrow> vertex_attributes \<Rightarrow> vec4" where
  "fragment_at_vertex snoise3 B U a =
     (let v = vertex_main snoise3 B U a in fragment_main U (vUv v) (vWave v))"

section \<open>The components (App.js, lines 75-126)\<close>

text \<open>
  What a thrown JavaScript value can be here: the \<^verbatim>\<open>TypeError\<close> of a property write on
  \<^verbatim>\<open>undefined\<close>, and the error a failed texture load carries.
\<close>

datatype js_error = TypeError | LoadError string

text \<open>The texture load is a promise: pending, fulfilled with the texture, or rejected.\<close>

datatype 'a promise = Pending | Fulfilled 'a | Rejected string

text \<open>
  Rendering a component returns its elements, suspends (a hook threw a pending promise),
  or throws.
\<close>

datatype 'a rendering = Suspended | Thrown js_error | Rendered 'a

text \<open>
  The hook \<^verbatim>\<open>useLoader\<close> of \<^verbatim>\<open>@react-three/fiber\<close>, as lines 82-84 call it, with one URL:
  while the load is pending it suspends the calling component, once the load has failed
  it throws the load's error, once it has succeeded it returns the one-element list that
  line 82 destructures (the model returns that element).
\<close>

definition useLoader :: "sampler2D promise \<Rightarrow> sampler2D rendering" where
  "useLoader load =
     (case load of
        Pending \<Rightarrow> Suspended
      | Rejected reason \<Rightarrow> Thrown (LoadError reason)
      | Fulfilled tex \<Rightarrow> Rendered tex)"

text \<open>The geometry element of line 89 and the mesh of lines 87-95.\<close>

datatype geometry =
  PlaneBufferGeometry (width: real) (height: real) (widthSegments: nat) (heightSegments: nat)

record mesh =
  geometry :: geometry
  material :: wave_uniforms

text \<open>
  The defaults of lines 16-20. \<^verbatim>\<open>new THREE.Texture()\<close> has no image; sampling it gives
  \<open>(0, 0, 0, 0)\<close>.
\<close>

definition THREE_Texture :: sampler2D where
  "THREE_Texture = (\<lambda>_. vec4 0 0 0 0)"

definition WaveShaderMaterial :: wave_uniforms where
  "WaveShaderMaterial = \<lparr> uTime = 0.0, uColor = Color 0.0 0.0 0.0, uTexture = THREE_Texture \<rparr>"

text \<open>
  The component \<^verbatim>\<open>Wave\<close> (lines 75-97): it returns its mesh only if \<^verbatim>\<open>useLoader\<close>
  returned; the material gets the props of lines 91-93.
\<close>

definition Wave :: "sampler2D promise \<Rightarrow> mesh list rendering" where
  "Wave load =
     (case useLoader load of
        Suspended \<Rightarrow> Suspended
      | Thrown e \<Rightarrow> Thrown e
      | Rendered img \<Rightarrow>
          Rendered [\<lparr> geometry = PlaneBufferGeometry 0.4 0.6 16 16,
                      material = WaveShaderMaterial
                        \<lparr> uColor := ColorName ''hotpink'', uTexture := img \<rparr> \<rparr>])"

text \<open>
  \<^verbatim>\<open>Suspense\<close> shows its fallback while a child is suspended; it is not an error
  boundary, so a child's throw passes through it.
\<close>

definition Suspense :: "'a list \<Rightarrow> 'a list rendering \<Rightarrow> 'a list rendering" where
  "Suspense fallback children =
     (case children of
        Suspended \<Rightarrow> Rendered fallback
      | Thrown e \<Rightarrow> Thrown e
      | Rendered elems \<Rightarrow> Rendered elems)"

text \<open>
  The rendered document: elements, text nodes, and the canvas with its camera and the
  objects of its scene.
\<close>

datatype camera = Camera (fov: real) (camera_position: vec3)

datatype dom = Element string "dom list" | Text string | Canvas camera "mesh list"

text \<open>\<^verbatim>\<open>Scene\<close> (lines 99-117); the fallback \<^verbatim>\<open>null\<close> is the empty list of objects.\<close>

definition Scene :: "sampler2D promise \<Rightarrow> dom rendering" where
  "Scene load =
     (case Suspense [] (Wave load) of
        Suspended \<Rightarrow> Suspended
      | Thrown e \<Rightarrow> Thrown e
      | Rendered objects \<Rightarrow> Rendered (Canvas (Camera 10 (vec3 0 0 5)) objects))"

text \<open>
  \<^verbatim>\<open>App\<close> (lines 119-126): the children of the fragment are the heading, the scene, and
  the text \<^verbatim>\<open>;\<close> that follows \<^verbatim>\<open><Scene />\<close> on line 123.
\<close>

definition App :: "sampler2D promise \<Rightarrow> dom list rendering" where
  "App load =
     (case Scene load of
        Suspended \<Rightarrow> Suspended
      | Thrown e \<Rightarrow> Thrown e
      | Rendered scene \<Rightarrow>
          Rendered [Element ''h1'' [Text ''Lorem Ipsum Dolor''], scene, Text '';''])"

section \<open>The frame loop (App.js, lines 77-80)\<close>

text \<open>The clock of the frame state; \<^verbatim>\<open>getElapsedTime\<close> reads its elapsed seconds.\<close>

datatype clock = Clock (elapsedTime: real)

definition getElapsedTime :: "clock \<Rightarrow> real" where
  "getElapsedTime c = elapsedTime c"

text \<open>
  The state the callback works on is the mesh that \<^verbatim>\<open>Wave\<close> has mounted, if any:
  \<^verbatim>\<open>ref.current\<close> (line 77, attached on line 92) is the material of that mesh, and is
  \<^verbatim>\<open>undefined\<close> while nothing is mounted. Line 79 writes \<^verbatim>\<open>uTime\<close> of \<^verbatim>\<open>ref.current\<close>; on
  \<^verbatim>\<open>undefined\<close> that write throws a \<^verbatim>\<open>TypeError\<close>.
\<close>

definition ref_current :: "mesh option \<Rightarrow> wave_uniforms option" where
  "ref_current mounted = map_option material mounted"

definition useFrame_callback :: "clock \<Rightarrow> mesh option \<Rightarrow> js_error + mesh option" where
  "useFrame_callback c mounted =
     (case mounted of
        None \<Rightarrow> Inl TypeError
      | Some m \<Rightarrow> Inr (Some (m\<lparr> material := (material m)\<lparr> uTime := getElapsedTime c \<rparr> \<rparr>)))"

text \<open>
  The render loop. \<^verbatim>\<open>useFrame\<close> (line 78) subscribes the callback in an effect of \<^verbatim>\<open>Wave\<close>,
  and effects run only once \<^verbatim>\<open>Wave\<close> has rendered and its mesh is mounted: while
  \<^verbatim>\<open>useLoader\<close> (line 82) suspends \<^verbatim>\<open>Wave\<close> nothing is subscribed, and a tick calls nothing.
  With the mesh mounted, each display tick calls the callback with that tick's clock. A
  throw of the callback is reported and does not stop the loop: the next tick runs on
  the state as it was. The result is the list of the errors reported and the final
  state.
\<close>

fun run_frames :: "clock list \<Rightarrow> mesh option \<Rightarrow> js_error list \<times> mesh option" where
  "run_frames [] mounted = ([], mounted)"
| "run_frames (c # cs) mounted =
     (case mounted of
        None \<Rightarrow> run_frames cs mounted
      | Some m \<Rightarrow>
          (case useFrame_callback c mounted of
             Inl e \<Rightarrow> (case run_frames cs mounted of (es, mounted') \<Rightarrow> (e # es, mounted'))
           | Inr mounted' \<Rightarrow> run_frames cs mounted'))"

section \<open>Concrete inputs\<close>

text \<open>
  A texture whose colour at \<open>(u, v)\<close> is \<open>(u, v, 0, 1)\<close>, and the identity for both
  matrices, for evaluating the program on examples.
\<close>

definition uv_texture :: sampler2D where
  "uv_texture coord = vec4 (v2x coord) (v2y coord) 0 1"

definition identity_mat4 :: mat4 where
  "identity_mat4 = mat4 (vec4 1 0 0 0) (vec4 0 1 0 0) (vec4 0 0 1 0) (vec4 0 0 0 1)"

definition identity_matrices :: builtin_uniforms where
  "identity_matrices = \<lparr> projectionMatrix = identity_mat4, modelViewMatrix = identity_mat4 \<rparr>"

section \<open>The vertex stage\<close>

text \<open>
  Claim C1. For every vertex position \<open>(x, y, z)\<close> and every value \<open>t\<close> of the uniform
  \<^verbatim>\<open>uTime\<close>, the position the vertex stage computes keeps \<open>x\<close> and \<open>y\<close> and has the third
  component \<open>z + snoise3 (x * 2.5 + t, y, z) * 0.7\<close>; \<^verbatim>\<open>gl_Position\<close> is that position, with
  \<open>w = 1\<close>, under the projection and model-view matrices; the displaced \<open>z\<close> and the
  vertex's UV coordinate are the two varyings handed to the fragment stage.
\<close>

theorem vertex_stage_displacement:
  "displaced_pos snoise3 t (vec3 x y z) = vec3 x y (z + snoise3 (vec3 (x * 2.5 + t) y z) * 0.7)
   \<and> gl_Position (vertex_main snoise3 B \<lparr>uTime = t, uColor = c, uTexture = tex\<rparr>
        \<lparr>position = vec3 x y z, uv = st\<rparr>)
       = mat4_mul_vec4 (mat4_mul (projectionMatrix B) (modelViewMatrix B))
           (vec4 x y (z + snoise3 (vec3 (x * 2.5 + t) y z) * 0.7) 1)
   \<and> vWave (vertex_main snoise3 B \<lparr>uTime = t, uColor = c, uTexture = tex\<rparr>
        \<lparr>position = vec3 x y z, uv = st\<rparr>)
       = z + snoise3 (vec3 (x * 2.5 + t) y z) * 0.7
   \<and> vUv (vertex_main snoise3 B \<lparr>uTime = t, uColor = c, uTexture = tex\<rparr>
        \<lparr>position = vec3 x y z, uv = st\<rparr>) = st"
  by (simp add: vertex_main_def displaced_pos_def vec4_of_def Let_def)

section \<open>The fragment stage\<close>

text \<open>
  Claim C2. For every interpolated UV coordinate \<open>(u, v)\<close> and interpolated displaced
  \<open>z\<close> value \<open>w\<close>, the fragment stage takes \<open>wave = w * 0.1\<close>, samples the bound texture
  at \<open>(u + wave, v + wave)\<close>, the same scalar added to both components, and outputs the
  red, green and blue of that sample with alpha 1, whatever the sample's alpha is.
\<close>

theorem fragment_stage_samples_offset:
  "fragment_main \<lparr>uTime = t, uColor = c, uTexture = tex\<rparr> (vec2 u v) w
     = vec4 (v4x (tex (vec2 (u + w * 0.1) (v + w * 0.1))))
            (v4y (tex (vec2 (u + w * 0.1) (v + w * 0.1))))
            (v4z (tex (vec2 (u + w * 0.1) (v + w * 0.1))))
            1"
  by (simp add: fragment_main_def texture2D_def vec2_add_float_def rgb_def vec4_of_def Let_def)

text \<open>
  Claim C4. Two sets of shader inputs that differ only in the tint colour \<^verbatim>\<open>uColor\<close> give
  every vertex the same vertex-stage output and every fragment the same colour.
\<close>

theorem tint_color_has_no_effect:
  "vertex_main snoise3 B (U\<lparr>uColor := c1\<rparr>) a = vertex_main snoise3 B (U\<lparr>uColor := c2\<rparr>) a
   \<and> fragment_main (U\<lparr>uColor := c1\<rparr>) fuv fwave = fragment_main (U\<lparr>uColor := c2\<rparr>) fuv fwave
   \<and> fragment_at_vertex snoise3 B (U\<lparr>uColor := c1\<rparr>) a
       = fragment_at_vertex snoise3 B (U\<lparr>uColor := c2\<rparr>) a"
  by (simp add: vertex_main_def fragment_main_def fragment_at_vertex_def Let_def)

section \<open>The centre of the plane at time zero\<close>

text \<open>Evaluating a \<^verbatim>\<open>let\<close> by value: first the bound term, then the body.\<close>

lemma Let_eval: "a = b \<Longrightarrow> Let a f = f b"
  by simp

lemmas let_const = trans [OF Let_eval [OF refl]]

lemmas let_step = trans [OF Let_eval]

lemmas glsl_defs = map3_def zip3_def map4_def zip4_def dot3_def dot4_def glsl_floor_def
  step_def mod289_def permute_def taylorInvSqrt_def

text \<open>
  The noise at the origin. There \<^verbatim>\<open>x0\<close> is \<open>(0, 0, 0)\<close>, so every comparison of
  \<^verbatim>\<open>step(x0.yzx, x0.xyz)\<close> is a tie: \<^verbatim>\<open>g\<close> is \<open>(1, 1, 1)\<close>, \<^verbatim>\<open>l\<close> is \<open>(0, 0, 0)\<close>, \<^verbatim>\<open>i1\<close> is
  \<open>(0, 0, 0)\<close> and the second corner is the first one again, at the offset
  \<^verbatim>\<open>x1\<close> \<open>= (1/6, 1/6, 1/6)\<close>. Its weight \<open>0.6 - 1/12\<close> is positive and its gradient, about
  \<open>(1/14, 1/14, -6/7)\<close>, is not orthogonal to \<^verbatim>\<open>x1\<close>: the result is about \<open>-0.4122\<close>.
\<close>

lemma snoise_origin:
  "snoise (vec3 0 0 0) = - (26909159331128204686323486825156128515080259 /
    65281994259189975434133504000000000000000000)"
  unfolding snoise_def
  apply (rule let_const, rule let_const, rule let_const)
  apply (rule let_const, rule let_const, rule let_const)
  apply (rule let_step, simp add: glsl_defs)
  apply (rule let_step, simp add: glsl_defs)
  apply (rule let_step, simp add: glsl_defs)
  apply (rule let_step, simp add: glsl_defs)
  apply (rule let_step, simp add: glsl_defs)
  apply (rule let_step, simp add: glsl_defs)
  apply (rule let_step, simp add: glsl_defs)
  apply (rule let_step, simp add: glsl_defs)
  apply (rule let_step, simp add: glsl_defs)
  apply (rule let_step, simp add: glsl_defs)
  apply (rule let_step, simp add: glsl_defs)
  apply (rule let_const)
  apply (rule let_step, simp add: glsl_defs)+
  apply (simp add: glsl_defs)
  done

lemma fragment_at_vertex_eq:
  "fragment_at_vertex sn B \<lparr>uTime = t, uColor = c, uTexture = tex\<rparr>
      \<lparr>position = vec3 x y z, uv = vec2 u v\<rparr>
     = vec4_of (rgb (tex (vec2 (u + (z + sn (vec3 (x * 2.5 + t) y z) * 0.7) * 0.1)
                               (v + (z + sn (vec3 (x * 2.5 + t) y z) * 0.7) * 0.1)))) 1"
  by (simp add: fragment_at_vertex_def vertex_main_def displaced_pos_def fragment_main_def
      texture2D_def vec2_add_float_def Let_def)

text \<open>
  Claim C3, as the code has it. At \<^verbatim>\<open>uTime = 0\<close>, for the vertex at position \<open>(0, 0, 0)\<close>
  with UV coordinate \<open>(0.5, 0.5)\<close>, the noise is sampled at \<open>(0, 0, 0)\<close>; the wave term is
  \<open>snoise3 (0, 0, 0) * 0.7 * 0.1\<close>, and the fragment colour there is the texture's sample
  at \<open>(0.5 + wave, 0.5 + wave)\<close> with alpha 1. The shader's noise function is not 0 at the
  origin but between \<open>-0.4123\<close> and \<open>-0.4121\<close>: the displacement is between \<open>-0.2887\<close> and
  \<open>-0.2884\<close>, the wave term between \<open>-0.0289\<close> and \<open>-0.0288\<close>, and the texture is read
  at a coordinate between \<open>0.4711\<close> and \<open>0.4712\<close> in both components, not at \<open>0.5\<close>.
\<close>

theorem center_fragment_at_time_zero:
  "fragment_at_vertex snoise3 B \<lparr>uTime = 0, uColor = c, uTexture = tex\<rparr>
      \<lparr>position = vec3 0 0 0, uv = vec2 0.5 0.5\<rparr>
     = vec4_of (rgb (tex (vec2 (0.5 + snoise3 (vec3 0 0 0) * 0.7 * 0.1)
                               (0.5 + snoise3 (vec3 0 0 0) * 0.7 * 0.1)))) 1
   \<and> - 0.4123 < snoise (vec3 0 0 0) \<and> snoise (vec3 0 0 0) < - 0.4121
   \<and> displaced_pos snoise 0 (vec3 0 0 0) = vec3 0 0 (snoise (vec3 0 0 0) * 0.7)
   \<and> - 0.2887 < snoise (vec3 0 0 0) * 0.7 \<and> snoise (vec3 0 0 0) * 0.7 < - 0.2884
   \<and> - 0.0289 < snoise (vec3 0 0 0) * 0.7 * 0.1 \<and> snoise (vec3 0 0 0) * 0.7 * 0.1 < - 0.0288
   \<and> 0.4711 < 0.5 + snoise (vec3 0 0 0) * 0.7 * 0.1
   \<and> 0.5 + snoise (vec3 0 0 0) * 0.7 * 0.1 < 0.4712"
  by (simp add: fragment_at_vertex_eq snoise_origin displaced_pos_def)

text \<open>
  Claim C3, as stated, fails: the noise is not 0 at the origin, and with the texture
  \<open>uv_texture\<close> the fragment colour at the centre vertex is not the texture's sample at
  \<open>(0.5, 0.5)\<close>.
\<close>

theorem center_fragment_counterexample:
  "snoise (vec3 0 0 0) \<noteq> 0
   \<and> fragment_at_vertex snoise identity_matrices
        \<lparr>uTime = 0, uColor = ColorName ''hotpink'', uTexture = uv_texture\<rparr>
        \<lparr>position = vec3 0 0 0, uv = vec2 0.5 0.5\<rparr>
      \<noteq> vec4_of (rgb (texture2D uv_texture (vec2 0.5 0.5))) 1"
  by (simp add: fragment_at_vertex_eq snoise_origin uv_texture_def rgb_def vec4_of_def
      texture2D_def)

section \<open>The frame update\<close>

lemma run_frames_mounted:
  "run_frames (cs @ [c]) (Some m)
     = ([], Some (m\<lparr>material := (material m)\<lparr>uTime := getElapsedTime c\<rparr>\<rparr>))"
  by (induction cs arbitrary: m) (simp_all add: useFrame_callback_def)

lemma run_frames_unmounted: "run_frames cs None = ([], None)"
  by (induction cs) simp_all

lemma run_frames_geometry:
  "run_frames cs (Some m) = (errs, Some m') \<Longrightarrow> geometry m' = geometry m"
proof (induction cs arbitrary: m)
  case Nil
  then show ?case by simp
next
  case (Cons c cs)
  from Cons.prems
  have "run_frames cs (Some (m\<lparr>material := (material m)\<lparr>uTime := getElapsedTime c\<rparr>\<rparr>))
          = (errs, Some m')"
    by (simp add: useFrame_callback_def)
  from Cons.IH [OF this] show ?case by simp
qed

text \<open>
  Claim C5. On a mounted mesh, the callback of a display tick returns normally and its
  only effect is that \<^verbatim>\<open>uTime\<close> of the material becomes the clock's elapsed time; after any
  number of ticks no error has been reported, \<^verbatim>\<open>uTime\<close> is the elapsed time of the last
  one, and the tint colour, the texture and the geometry are the ones the mesh started
  with.
\<close>

theorem frame_update_writes_only_uTime:
  "useFrame_callback c (Some m)
     = Inr (Some (m\<lparr>material := (material m)\<lparr>uTime := getElapsedTime c\<rparr>\<rparr>))
   \<and> (\<exists>m'. run_frames (cs @ [c]) (Some m) = ([], Some m')
          \<and> uTime (material m') = getElapsedTime c
          \<and> uColor (material m') = uColor (material m)
          \<and> uTexture (material m') = uTexture (material m)
          \<and> geometry m' = geometry m)"
  by (simp add: run_frames_mounted) (simp add: useFrame_callback_def)

text \<open>
  Claim C10. The callback writes through \<^verbatim>\<open>ref.current\<close> without a guard: called with
  \<^verbatim>\<open>ref.current\<close> unset, the write throws a \<^verbatim>\<open>TypeError\<close> instead of being skipped; the
  callback returns normally exactly when \<^verbatim>\<open>ref.current\<close> is set.
\<close>

theorem frame_update_dereferences_unguarded:
  "useFrame_callback c None = Inl TypeError
   \<and> ((\<exists>mounted'. useFrame_callback c mounted = Inr mounted') \<longleftrightarrow> ref_current mounted \<noteq> None)"
  by (cases mounted) (simp_all add: useFrame_callback_def ref_current_def)

section \<open>The geometry\<close>

lemma Wave_mesh_geometry:
  "Wave load = Rendered objs \<Longrightarrow> m \<in> set objs
   \<Longrightarrow> geometry m = PlaneBufferGeometry 0.4 0.6 16 16"
  by (auto simp: Wave_def useLoader_def split: promise.splits)

text \<open>
  Claim C7. Whatever the state of the texture load, every mesh that \<^verbatim>\<open>Wave\<close> renders has
  the plane geometry of width 0.4 and height 0.6 with 16 by 16 segments, and after any
  sequence of frame updates, at whatever elapsed times, its geometry is still that one.
\<close>

theorem geometry_is_fixed_plane:
  assumes "Wave load = Rendered objs" and "m \<in> set objs"
    and "run_frames cs (Some m) = (errs, Some m')"
  shows "geometry m = PlaneBufferGeometry 0.4 0.6 16 16
         \<and> geometry m' = PlaneBufferGeometry 0.4 0.6 16 16
         \<and> width (geometry m') = 0.4 \<and> height (geometry m') = 0.6
         \<and> widthSegments (geometry m') = 16 \<and> heightSegments (geometry m') = 16"
  using Wave_mesh_geometry [OF assms(1,2)] run_frames_geometry [OF assms(3)] by simp

text \<open>An instance: the load has succeeded and two frames, at 0 and 1.5 seconds, have run.\<close>

theorem geometry_is_fixed_plane_witness:
  "Wave (Fulfilled uv_texture)
     = Rendered [\<lparr>geometry = PlaneBufferGeometry 0.4 0.6 16 16,
                  material = \<lparr>uTime = 0, uColor = ColorName ''hotpink'', uTexture = uv_texture\<rparr>\<rparr>]
   \<and> run_frames [Clock 0, Clock 1.5]
        (Some \<lparr>geometry = PlaneBufferGeometry 0.4 0.6 16 16,
               material = \<lparr>uTime = 0, uColor = ColorName ''hotpink'', uTexture = uv_texture\<rparr>\<rparr>)
     = ([], Some \<lparr>geometry = PlaneBufferGeometry 0.4 0.6 16 16,
               material = \<lparr>uTime = 1.5, uColor = ColorName ''hotpink'', uTexture = uv_texture\<rparr>\<rparr>)
   \<and> widthSegments (geometry \<lparr>geometry = PlaneBufferGeometry 0.4 0.6 16 16,
               material = \<lparr>uTime = 1.5, uColor = ColorName ''hotpink'', uTexture = uv_texture\<rparr>\<rparr>)
     = 16"
proof -
  let ?m = "\<lparr>geometry = PlaneBufferGeometry 0.4 0.6 16 16,
             material = \<lparr>uTime = 0, uColor = ColorName ''hotpink'', uTexture = uv_texture\<rparr>\<rparr>"
  let ?m' = "\<lparr>geometry = PlaneBufferGeometry 0.4 0.6 16 16,
              material = \<lparr>uTime = 1.5, uColor = ColorName ''hotpink'', uTexture = uv_texture\<rparr>\<rparr>"
  have h1: "Wave (Fulfilled uv_texture) = Rendered [?m]"
    by (simp add: Wave_def useLoader_def WaveShaderMaterial_def)
  have h2: "?m \<in> set [?m]"
    by simp
  have h3: "run_frames [Clock 0, Clock 1.5] (Some ?m) = ([], Some ?m')"
    by (simp add: useFrame_callback_def getElapsedTime_def)
  from geometry_is_fixed_plane [OF h1 h2 h3] h1 h3 show ?thesis by simp
qed

section \<open>The scene and the document\<close>

text \<open>
  Claim C6, as the code has it. While the texture load is pending, for as long as that
  lasts, the canvas holds no mesh. Once the load has succeeded the canvas holds exactly
  one mesh, with the plane geometry and the wave shader material carrying the loaded
  texture. Once the load has failed no mesh is built either, and the error that
  \<^verbatim>\<open>useLoader\<close> throws is caught by none of \<^verbatim>\<open>Wave\<close>, \<^verbatim>\<open>Scene\<close> and \<^verbatim>\<open>App\<close>: rendering \<^verbatim>\<open>App\<close>
  throws it.
\<close>

theorem scene_by_load_state:
  "Scene Pending = Rendered (Canvas (Camera 10 (vec3 0 0 5)) [])
   \<and> Scene (Fulfilled tex) =
       Rendered (Canvas (Camera 10 (vec3 0 0 5))
         [\<lparr> geometry = PlaneBufferGeometry 0.4 0.6 16 16,
            material = \<lparr> uTime = 0, uColor = ColorName ''hotpink'', uTexture = tex \<rparr> \<rparr>])
   \<and> Wave (Rejected reason) = Thrown (LoadError reason)
   \<and> Scene (Rejected reason) = Thrown (LoadError reason)
   \<and> App (Rejected reason) = Thrown (LoadError reason)"
  by (simp add: App_def Scene_def Suspense_def Wave_def useLoader_def WaveShaderMaterial_def)

text \<open>
  Claim C6, as stated, fails on a failed load: the scene is not the blank canvas, and
  the error reaches the caller of \<^verbatim>\<open>App\<close>.
\<close>

theorem load_failure_counterexample:
  "Scene (Rejected ''404'') \<noteq> Rendered (Canvas (Camera 10 (vec3 0 0 5)) [])
   \<and> App (Rejected ''404'') = Thrown (LoadError ''404'')"
  by (simp add: App_def Scene_def Suspense_def Wave_def useLoader_def)

text \<open>
  Claim C9 says that the document holds the heading and the canvas and nothing else.
  The code renders a third node, the text \<^verbatim>\<open>;\<close> after the canvas, in every state in
  which \<^verbatim>\<open>App\<close> renders.
\<close>

theorem App_renders_semicolon_text:
  "App Pending =
     Rendered [Element ''h1'' [Text ''Lorem Ipsum Dolor''],
               Canvas (Camera 10 (vec3 0 0 5)) [],
               Text '';'']
   \<and> App (Fulfilled tex) =
     Rendered [Element ''h1'' [Text ''Lorem Ipsum Dolor''],
               Canvas (Camera 10 (vec3 0 0 5))
                 [\<lparr> geometry = PlaneBufferGeometry 0.4 0.6 16 16,
                    material = \<lparr> uTime = 0, uColor = ColorName ''hotpink'', uTexture = tex \<rparr> \<rparr>],
               Text '';'']"
  by (simp add: App_def Scene_def Suspense_def Wave_def useLoader_def WaveShaderMaterial_def)

end
